theory Spec2Isabelle
  imports Main "HOL-Library.Char_ord" "HOL-Library.List_Lexorder"
begin

section \<open>Python values\<close>

text \<open>
  The engine handles values of type \<open>Any\<close>: configuration values of a node, values of the
  state bag, successors. The model has \<open>None\<close>, booleans, unbounded integers, strings and
  references to mutable objects that live in a store. An object is an instance of a plain
  class: it is equal to itself only, it is not ordered, it is truthy and hashable.
  Floating-point numbers and containers as values are outside the model.
\<close>

type_synonym addr = nat

datatype pyval = VNone | VBool bool | VInt int | VStr string | VObj addr

type_synonym bag = "string \<rightharpoonup> pyval"

type_synonym store = "addr \<rightharpoonup> pyval"

datatype error =
    ValueError string
  | TypeError string
  | KeyError string
  | ValidationError string
  | QueueFull
  | ToolFailure string

text \<open>\<open>str(exc)\<close>: the message of an exception.\<close>

fun str_exc :: "error \<Rightarrow> string" where
  "str_exc (ValueError m) = m"
| "str_exc (TypeError m) = m"
| "str_exc (KeyError m) = m"
| "str_exc (ValidationError m) = m"
| "str_exc QueueFull = []"
| "str_exc (ToolFailure m) = m"

text \<open>\<open>bool(v)\<close>, as used by \<open>if v\<close>, \<open>not v\<close>, \<open>while v\<close> and \<open>a or b\<close>.\<close>

fun truthy :: "pyval \<Rightarrow> bool" where
  "truthy VNone = False"
| "truthy (VBool b) = b"
| "truthy (VInt i) = (i \<noteq> 0)"
| "truthy (VStr s) = (s \<noteq> [])"
| "truthy (VObj a) = True"

definition py_or :: "pyval \<Rightarrow> pyval \<Rightarrow> pyval" where
  "py_or a b = (if truthy a then a else b)"

text \<open>Booleans are integers in Python: \<open>True == 1\<close>, \<open>False < 1\<close>.\<close>

fun as_num :: "pyval \<Rightarrow> int option" where
  "as_num (VBool b) = Some (if b then 1 else 0)"
| "as_num (VInt i) = Some i"
| "as_num VNone = None"
| "as_num (VStr s) = None"
| "as_num (VObj a) = None"

text \<open>\<open>v == w\<close>.\<close>

definition py_eq :: "pyval \<Rightarrow> pyval \<Rightarrow> bool" where
  "py_eq v w =
     (case (v, w) of
        (VNone, VNone) \<Rightarrow> True
      | (VStr s, VStr t) \<Rightarrow> s = t
      | (VObj a, VObj b) \<Rightarrow> a = b
      | _ \<Rightarrow> (case (as_num v, as_num w) of (Some i, Some j) \<Rightarrow> i = j | _ \<Rightarrow> False))"

definition quoted :: "string \<Rightarrow> string" where
  "quoted s = CHR 0x27 # s @ [CHR 0x27]"

function show_nat :: "nat \<Rightarrow> string" where
  "show_nat n =
     (if n < 10 then [''0123456789'' ! n]
      else show_nat (n div 10) @ [''0123456789'' ! (n mod 10)])"
  by pat_completeness auto
termination
  by (relation "measure id") auto

definition show_int :: "int \<Rightarrow> string" where
  "show_int i = (if i < 0 then CHR ''-'' # show_nat (nat (- i)) else show_nat (nat i))"

text \<open>
  \<open>str(v)\<close>, as an f-string renders it. The text of an object carries its address.
\<close>

fun py_str :: "pyval \<Rightarrow> string" where
  "py_str VNone = ''None''"
| "py_str (VBool b) = (if b then ''True'' else ''False'')"
| "py_str (VInt i) = show_int i"
| "py_str (VStr s) = s"
| "py_str (VObj a) = ''<object at '' @ show_nat a @ ''>''"

fun type_name :: "pyval \<Rightarrow> string" where
  "type_name VNone = ''NoneType''"
| "type_name (VBool b) = ''bool''"
| "type_name (VInt i) = ''int''"
| "type_name (VStr s) = ''str''"
| "type_name (VObj a) = ''object''"

definition unorderable :: "string \<Rightarrow> pyval \<Rightarrow> pyval \<Rightarrow> error" where
  "unorderable opn v w =
     TypeError (quoted opn @ '' not supported between instances of '' @
                quoted (type_name v) @ '' and '' @ quoted (type_name w))"

text \<open>
  The ordering operators: numbers with numbers, strings with strings (lexicographic on
  the characters); every other pair raises TypeError.
\<close>

definition py_order ::
  "string \<Rightarrow> (int \<Rightarrow> int \<Rightarrow> bool) \<Rightarrow> (string \<Rightarrow> string \<Rightarrow> bool) \<Rightarrow> pyval \<Rightarrow> pyval \<Rightarrow> error + bool" where
  "py_order opn ri rs v w =
     (case (v, w) of
        (VStr s, VStr t) \<Rightarrow> Inr (rs s t)
      | _ \<Rightarrow> (case (as_num v, as_num w) of
                (Some i, Some j) \<Rightarrow> Inr (ri i j)
              | _ \<Rightarrow> Inl (unorderable opn v w)))"

definition py_gt :: "pyval \<Rightarrow> pyval \<Rightarrow> error + bool" where
  "py_gt = py_order ''>'' (\<lambda>i j. i > j) (\<lambda>s t. s > t)"

definition py_ge :: "pyval \<Rightarrow> pyval \<Rightarrow> error + bool" where
  "py_ge = py_order ''>='' (\<lambda>i j. i \<ge> j) (\<lambda>s t. s \<ge> t)"

definition py_lt :: "pyval \<Rightarrow> pyval \<Rightarrow> error + bool" where
  "py_lt = py_order ''<'' (\<lambda>i j. i < j) (\<lambda>s t. s < t)"

definition py_le :: "pyval \<Rightarrow> pyval \<Rightarrow> error + bool" where
  "py_le = py_order ''<='' (\<lambda>i j. i \<le> j) (\<lambda>s t. s \<le> t)"

section \<open>WorkflowEngine._compare\<close>

text \<open>
  \<open>value is not None and target is not None and value > target\<close>: the comparison is
  evaluated only when both operands are not \<open>None\<close>.
\<close>

definition guarded :: "(pyval \<Rightarrow> pyval \<Rightarrow> error + bool) \<Rightarrow> pyval \<Rightarrow> pyval \<Rightarrow> error + bool" where
  "guarded rel v t = (if v = VNone then Inr False else if t = VNone then Inr False else rel v t)"

definition compare :: "pyval \<Rightarrow> pyval \<Rightarrow> pyval \<Rightarrow> error + bool" where
  "compare v op t =
     (if py_eq op (VStr ''=='') then Inr (py_eq v t)
      else if py_eq op (VStr ''!='') then Inr (\<not> py_eq v t)
      else if py_eq op (VStr ''>'') then guarded py_gt v t
      else if py_eq op (VStr ''>='') then guarded py_ge v t
      else if py_eq op (VStr ''<'') then guarded py_lt v t
      else if py_eq op (VStr ''<='') then guarded py_le v t
      else Inl (ValueError (''Unsupported operator '' @ quoted (py_str op))))"

section \<open>Dictionaries\<close>

text \<open>\<open>d.get(k)\<close> and \<open>d.get(k, default)\<close> on a dictionary with string keys.\<close>

definition dict_get :: "bag \<Rightarrow> string \<Rightarrow> pyval" where
  "dict_get d k = (case d k of None \<Rightarrow> VNone | Some v \<Rightarrow> v)"

definition dict_get_default :: "bag \<Rightarrow> string \<Rightarrow> pyval \<Rightarrow> pyval" where
  "dict_get_default d k dflt = (case d k of None \<Rightarrow> dflt | Some v \<Rightarrow> v)"

text \<open>
  \<open>state.get(key)\<close> where \<open>key\<close> is any hashable value: the keys of the state bag are
  strings, so a key that is not a string is not found.
\<close>

definition state_get :: "bag \<Rightarrow> pyval \<Rightarrow> pyval" where
  "state_get d key = (case key of VStr k \<Rightarrow> dict_get d k | _ \<Rightarrow> VNone)"

text \<open>\<open>d.update(result)\<close>, the items of \<open>result\<close> in their order.\<close>

fun dict_update :: "bag \<Rightarrow> (string \<times> pyval) list \<Rightarrow> bag" where
  "dict_update d [] = d"
| "dict_update d ((k, v) # kvs) = dict_update (d(k \<mapsto> v)) kvs"

section \<open>Schemas\<close>

datatype NodeType = tool | conditional | loop

record NodeDefinition =
  node_name :: string
  node_type :: NodeType
  node_next :: "string option"
  node_config :: bag

record GraphDefinition =
  graph_id :: string
  start_at :: string
  nodes :: "NodeDefinition list"

datatype RunStatus = pending | running | completed | failed

datatype LogStatus = log_start | log_end | log_error

record LogEntry =
  entry_node :: string
  entry_status :: LogStatus
  detail :: "string option"
  state_snapshot :: "bag option"

definition opt_val :: "string option \<Rightarrow> pyval" where
  "opt_val x = (case x of None \<Rightarrow> VNone | Some s \<Rightarrow> VStr s)"

text \<open>\<open>target not in node_names\<close>, for a set of strings.\<close>

definition not_in_names :: "pyval \<Rightarrow> string list \<Rightarrow> bool" where
  "not_in_names target names = (case target of VStr s \<Rightarrow> s \<notin> set names | _ \<Rightarrow> True)"

text \<open>
  The inner loops of \<open>validate_graph\<close>: \<open>for key in (...)\<close> over the configuration keys
  that name other nodes. The first unknown target raises.
\<close>

fun check_targets :: "string \<Rightarrow> NodeDefinition \<Rightarrow> string list \<Rightarrow> string list \<Rightarrow> error + unit" where
  "check_targets kind node names [] = Inr ()"
| "check_targets kind node names (key # keys) =
     (let target = dict_get (node_config node) key in
      if truthy target \<and> not_in_names target names
      then Inl (ValueError (kind @ '' node '' @ quoted (node_name node) @
                  '' references unknown node '' @ quoted (py_str target)))
      else check_targets kind node names keys)"

definition check_node :: "string list \<Rightarrow> NodeDefinition \<Rightarrow> error + unit" where
  "check_node names node =
     (if (case node_next node of None \<Rightarrow> False | Some n \<Rightarrow> n \<noteq> [] \<and> n \<notin> set names)
      then Inl (ValueError (''Node '' @ quoted (node_name node) @
                  '' references unknown next node '' @ quoted (the (node_next node))))
      else case (if node_type node = conditional
                 then check_targets ''Conditional'' node names [''on_true'', ''on_false'']
                 else Inr ()) of
             Inl e \<Rightarrow> Inl e
           | Inr u \<Rightarrow> (if node_type node = loop
                       then check_targets ''Loop'' node names [''body'', ''after'']
                       else Inr ()))"

fun check_nodes :: "string list \<Rightarrow> NodeDefinition list \<Rightarrow> error + unit" where
  "check_nodes names [] = Inr ()"
| "check_nodes names (node # rest) =
     (case check_node names node of Inl e \<Rightarrow> Inl e | Inr u \<Rightarrow> check_nodes names rest)"

text \<open>
  \<open>GraphDefinition.validate_graph\<close>. \<open>node_names\<close> is a set comprehension over the names,
  so a name that occurs twice is one element of it.
\<close>

definition validate_graph :: "GraphDefinition \<Rightarrow> error + GraphDefinition" where
  "validate_graph g =
     (let node_names = map node_name (nodes g) in
      if start_at g \<notin> set node_names
      then Inl (ValueError (''start_at node '' @ quoted (start_at g) @ '' is not defined''))
      else case check_nodes node_names (nodes g) of
             Inl e \<Rightarrow> Inl e
           | Inr u \<Rightarrow> Inr g)"

section \<open>Events and subscriber queues\<close>

text \<open>
  The messages that the engine publishes. A message that carries the state carries the
  bindings of the state bag at the time of publication.
\<close>

datatype event =
    run_started string
  | node_start pyval bag
  | node_end string bag
  | run_completed string bag
  | run_failed string string

text \<open>
  \<open>asyncio.Queue\<close>: a queue whose \<open>maxsize\<close> is zero or less is unbounded; \<open>put_nowait\<close>
  raises \<open>QueueFull\<close> on a full queue.
\<close>

record queue =
  maxsize :: int
  items :: "event list"

definition full :: "queue \<Rightarrow> bool" where
  "full q = (if maxsize q \<le> 0 then False else int (length (items q)) \<ge> maxsize q)"

definition put_nowait :: "queue \<Rightarrow> event \<Rightarrow> error + queue" where
  "put_nowait q msg = (if full q then Inl QueueFull else Inr (q\<lparr>items := items q @ [msg]\<rparr>))"

record RunState =
  run_id :: string
  run_graph_id :: string
  state :: bag
  current_node :: pyval
  status :: RunStatus
  log :: "LogEntry list"
  loop_counts :: "string \<rightharpoonup> int"
  subscribers :: "queue list"

section \<open>ToolRegistry\<close>

text \<open>
  A tool receives the state bag itself and may change it and the objects it refers to in
  place; it returns a dictionary (its items), \<open>None\<close>, or raises.
\<close>

type_synonym tool_fn =
  "bag \<Rightarrow> store \<Rightarrow> (error + (string \<times> pyval) list option) \<times> bag \<times> store"

type_synonym registry = "string \<rightharpoonup> tool_fn"

definition registry_get :: "registry \<Rightarrow> pyval \<Rightarrow> tool_fn option" where
  "registry_get T nm = (case nm of VStr s \<Rightarrow> T s | _ \<Rightarrow> None)"

definition not_registered :: "pyval \<Rightarrow> error" where
  "not_registered nm = ValueError (''Tool '' @ quoted (py_str nm) @ '' is not registered'')"

definition invoke ::
  "registry \<Rightarrow> pyval \<Rightarrow> bag \<Rightarrow> store \<Rightarrow> (error + (string \<times> pyval) list) \<times> bag \<times> store" where
  "invoke T nm st h =
     (case registry_get T nm of
        None \<Rightarrow> (Inl (not_registered nm), st, h)
      | Some fn \<Rightarrow>
          (case fn st h of
             (Inl e, st', h') \<Rightarrow> (Inl e, st', h')
           | (Inr r, st', h') \<Rightarrow> (Inr (case r of None \<Rightarrow> [] | Some kvs \<Rightarrow> kvs), st', h')))"

section \<open>WorkflowEngine\<close>

text \<open>
  \<open>_notify_subscribers\<close>: \<open>put_nowait\<close> on every queue in turn, inside
  \<open>try ... except asyncio.QueueFull: pass\<close>. Any other exception would leave the loop.
\<close>

fun notify_queues :: "queue list \<Rightarrow> event \<Rightarrow> error + queue list" where
  "notify_queues [] msg = Inr []"
| "notify_queues (q # qs) msg =
     (case put_nowait q msg of
        Inl e \<Rightarrow>
          (if e = QueueFull
           then (case notify_queues qs msg of Inl e' \<Rightarrow> Inl e' | Inr qs' \<Rightarrow> Inr (q # qs'))
           else Inl e)
      | Inr q' \<Rightarrow>
          (case notify_queues qs msg of Inl e' \<Rightarrow> Inl e' | Inr qs' \<Rightarrow> Inr (q' # qs')))"

definition notify_subscribers :: "RunState \<Rightarrow> event \<Rightarrow> error + RunState" where
  "notify_subscribers rs msg =
     (case notify_queues (subscribers rs) msg of
        Inl e \<Rightarrow> Inl e
      | Inr qs \<Rightarrow> Inr (rs\<lparr>subscribers := qs\<rparr>))"

text \<open>\<open>subscribe\<close> and \<open>unsubscribe\<close>, on the run they address.\<close>

definition subscribe :: "RunState \<Rightarrow> RunState" where
  "subscribe rs = rs\<lparr>subscribers := subscribers rs @ [\<lparr>maxsize = 100, items = []\<rparr>]\<rparr>"

definition unsubscribe :: "RunState \<Rightarrow> queue \<Rightarrow> RunState" where
  "unsubscribe rs q =
     (if q \<in> set (subscribers rs) then rs\<lparr>subscribers := remove1 q (subscribers rs)\<rparr> else rs)"

text \<open>\<open>_invoke_tool\<close>: the result of the tool is merged into the state bag when it is not empty.\<close>

definition invoke_tool ::
  "registry \<Rightarrow> pyval \<Rightarrow> RunState \<Rightarrow> store \<Rightarrow> (error + unit) \<times> RunState \<times> store" where
  "invoke_tool T tool_name rs h =
     (case registry_get T tool_name of
        None \<Rightarrow> (Inl (not_registered tool_name), rs, h)
      | Some fn \<Rightarrow>
          (case invoke T tool_name (state rs) h of
             (Inl e, st', h') \<Rightarrow> (Inl e, rs\<lparr>state := st'\<rparr>, h')
           | (Inr result, st', h') \<Rightarrow>
               (Inr (), rs\<lparr>state := (if result \<noteq> [] then dict_update st' result else st')\<rparr>, h')))"

definition evaluate_conditional :: "NodeDefinition \<Rightarrow> RunState \<Rightarrow> error + pyval" where
  "evaluate_conditional node rs =
     (let key = dict_get (node_config node) ''key'';
          op = dict_get_default (node_config node) ''op'' (VStr ''=='');
          target = dict_get (node_config node) ''value'';
          on_true = dict_get (node_config node) ''on_true'';
          on_false = dict_get (node_config node) ''on_false''
      in if key = VNone
         then Inl (ValueError (''Conditional node '' @ quoted (node_name node) @
                     '' is missing '' @ quoted ''key''))
         else (case compare (state_get (state rs) key) op target of
                 Inl e \<Rightarrow> Inl e
               | Inr passed \<Rightarrow>
                   Inr (if passed then on_true else py_or on_false (opt_val (node_next node)))))"

definition evaluate_loop :: "NodeDefinition \<Rightarrow> RunState \<Rightarrow> error + pyval \<times> RunState" where
  "evaluate_loop node rs =
     (let key = dict_get (node_config node) ''key'';
          op = dict_get_default (node_config node) ''op'' (VStr ''=='');
          target = dict_get (node_config node) ''value'';
          body = dict_get (node_config node) ''body'';
          after = dict_get (node_config node) ''after'';
          max_iterations = dict_get_default (node_config node) ''max_iterations'' (VInt 25)
      in if key = VNone \<or> body = VNone
         then Inl (ValueError (''Loop node '' @ quoted (node_name node) @ '' requires '' @
                     quoted ''key'' @ '' and '' @ quoted ''body''))
         else
           (let count = (case loop_counts rs (node_name node) of None \<Rightarrow> 0 | Some c \<Rightarrow> c) in
            case compare (state_get (state rs) key) op target of
              Inl e \<Rightarrow> Inl e
            | Inr continue_loop \<Rightarrow>
                (case (if continue_loop then py_ge (VInt count) max_iterations else Inr False) of
                   Inl e \<Rightarrow> Inl e
                 | Inr capped \<Rightarrow>
                     (if capped then Inr (after, rs)
                      else if continue_loop
                      then Inr (body, rs\<lparr>loop_counts := (loop_counts rs)(node_name node \<mapsto> count + 1)\<rparr>)
                      else Inr (py_or after (opt_val (node_next node)), rs)))))"

text \<open>
  \<open>_execute_node\<close>. The type of a node is one of the three members of \<open>NodeType\<close>, so the
  final \<open>raise\<close> of the source is not reached.
\<close>

definition execute_node ::
  "registry \<Rightarrow> NodeDefinition \<Rightarrow> RunState \<Rightarrow> store \<Rightarrow> (error + pyval) \<times> RunState \<times> store" where
  "execute_node T node rs h =
     (case node_type node of
        tool \<Rightarrow>
          (let tool_name = dict_get (node_config node) ''tool'' in
           if \<not> truthy tool_name
           then (Inl (ValueError (''Tool node '' @ quoted (node_name node) @ '' is missing '' @
                        quoted ''tool'' @ '' in config'')), rs, h)
           else (case invoke_tool T tool_name rs h of
                   (Inl e, rs', h') \<Rightarrow> (Inl e, rs', h')
                 | (Inr u, rs', h') \<Rightarrow> (Inr (opt_val (node_next node)), rs', h')))
      | conditional \<Rightarrow>
          (case evaluate_conditional node rs of
             Inl e \<Rightarrow> (Inl e, rs, h)
           | Inr nxt \<Rightarrow> (Inr nxt, rs, h))
      | loop \<Rightarrow>
          (case evaluate_loop node rs of
             Inl e \<Rightarrow> (Inl e, rs, h)
           | Inr (nxt, rs') \<Rightarrow> (Inr nxt, rs', h)))"

text \<open>
  \<open>LogEntry(node=..., status=..., detail=..., state_snapshot=dict(run_state.state))\<close>.
  The field \<open>node\<close> is declared \<open>str\<close>: any other value fails the validation of the
  model. \<open>dict(...)\<close> copies the bindings of the bag; the values are not copied, so a
  reference in the copy is the reference in the bag.
\<close>

definition new_entry :: "string \<Rightarrow> LogStatus \<Rightarrow> string option \<Rightarrow> bag \<Rightarrow> LogEntry" where
  "new_entry n st d b =
     \<lparr>entry_node = n, entry_status = st, detail = d, state_snapshot = Some b\<rparr>"

definition LogEntry_of :: "pyval \<Rightarrow> LogStatus \<Rightarrow> string option \<Rightarrow> bag \<Rightarrow> error + LogEntry" where
  "LogEntry_of n st d b =
     (case n of
        VStr s \<Rightarrow> Inr (new_entry s st d b)
      | _ \<Rightarrow> Inl (ValidationError ''node: Input should be a valid string''))"

text \<open>\<open>node_lookup = {node.name: node for node in graph.nodes}\<close>: a later node wins.\<close>

definition node_lookup :: "NodeDefinition list \<Rightarrow> (string \<rightharpoonup> NodeDefinition)" where
  "node_lookup ns = foldl (\<lambda>m n. m(node_name n \<mapsto> n)) Map.empty ns"

text \<open>\<open>node_lookup[current]\<close>; the text of a KeyError is the \<open>repr\<close> of the key.\<close>

definition lookup_node :: "(string \<rightharpoonup> NodeDefinition) \<Rightarrow> pyval \<Rightarrow> error + NodeDefinition" where
  "lookup_node L cur =
     (case cur of
        VStr s \<Rightarrow> (case L s of None \<Rightarrow> Inl (KeyError (quoted s)) | Some n \<Rightarrow> Inr n)
      | _ \<Rightarrow> Inl (KeyError (py_str cur)))"

text \<open>
  The control state of the \<open>while current:\<close> loop of \<open>_execute\<close>: still going with the
  value of \<open>current\<close>, left normally, or left by an exception (with the value that
  \<open>current\<close> had when it was raised).
\<close>

datatype loop_ctl = Going pyval | Exited pyval | Raised error pyval

type_synonym loop_cfg = "loop_ctl \<times> RunState \<times> store"

text \<open>One pass through the body of the loop, for a truthy \<open>current\<close>.\<close>

definition loop_body ::
  "registry \<Rightarrow> (string \<rightharpoonup> NodeDefinition) \<Rightarrow> pyval \<Rightarrow> RunState \<Rightarrow> store \<Rightarrow> loop_cfg" where
  "loop_body T L cur rs h =
     (let rs1 = rs\<lparr>current_node := cur\<rparr> in
      case LogEntry_of cur log_start None (state rs1) of
        Inl e \<Rightarrow> (Raised e cur, rs1, h)
      | Inr entry \<Rightarrow>
          (let rs2 = rs1\<lparr>log := log rs1 @ [entry]\<rparr> in
           case notify_subscribers rs2 (node_start cur (state rs2)) of
             Inl e \<Rightarrow> (Raised e cur, rs2, h)
           | Inr rs3 \<Rightarrow>
               (case lookup_node L cur of
                  Inl e \<Rightarrow> (Raised e cur, rs3, h)
                | Inr node \<Rightarrow>
                    (case execute_node T node rs3 h of
                       (Inl e, rs4, h4) \<Rightarrow> (Raised e cur, rs4, h4)
                     | (Inr nxt, rs4, h4) \<Rightarrow>
                         (let rs5 = rs4\<lparr>log := log rs4 @
                                      [new_entry (node_name node) log_end None (state rs4)]\<rparr> in
                          case notify_subscribers rs5 (node_end (node_name node) (state rs5)) of
                            Inl e \<Rightarrow> (Raised e nxt, rs5, h4)
                          | Inr rs6 \<Rightarrow> (Going nxt, rs6, h4))))))"

definition loop_step ::
  "registry \<Rightarrow> (string \<rightharpoonup> NodeDefinition) \<Rightarrow> loop_cfg \<Rightarrow> loop_cfg" where
  "loop_step T L c =
     (case c of
        (Going cur, rs, h) \<Rightarrow> (if truthy cur then loop_body T L cur rs h else (Exited cur, rs, h))
      | _ \<Rightarrow> c)"

text \<open>The loop after \<open>n\<close> tests of its condition (or fewer, when it has been left).\<close>

definition loop_steps ::
  "nat \<Rightarrow> registry \<Rightarrow> (string \<rightharpoonup> NodeDefinition) \<Rightarrow> loop_cfg \<Rightarrow> loop_cfg" where
  "loop_steps n T L c = (loop_step T L ^^ n) c"

text \<open>
  The loop with fuel: \<open>None\<close> when it has not been left after \<open>fuel\<close> tests of its
  condition. A graph with a cycle may run forever.
\<close>

definition while_loop ::
  "nat \<Rightarrow> registry \<Rightarrow> (string \<rightharpoonup> NodeDefinition) \<Rightarrow> pyval \<Rightarrow> RunState \<Rightarrow> store \<Rightarrow> loop_cfg option" where
  "while_loop fuel T L cur rs h =
     (case loop_steps fuel T L (Going cur, rs, h) of
        (Going c, rs', h') \<Rightarrow> None
      | r \<Rightarrow> Some r)"

text \<open>The \<open>except Exception\<close> handler of \<open>_execute\<close>; it ends with \<open>raise\<close>.\<close>

definition on_exception ::
  "error \<Rightarrow> pyval \<Rightarrow> RunState \<Rightarrow> store \<Rightarrow> error option \<times> RunState \<times> store" where
  "on_exception exc cur rs h =
     (let rs1 = rs\<lparr>status := failed\<rparr> in
      case LogEntry_of (py_or cur (VStr ''unknown'')) log_error (Some (str_exc exc)) (state rs1) of
        Inl e \<Rightarrow> (Some e, rs1, h)
      | Inr entry \<Rightarrow>
          (let rs2 = rs1\<lparr>log := log rs1 @ [entry]\<rparr>;
               rs3 = rs2\<lparr>current_node := VNone\<rparr> in
           case notify_subscribers rs3 (run_failed (run_id rs3) (str_exc exc)) of
             Inl e \<Rightarrow> (Some e, rs3, h)
           | Inr rs4 \<Rightarrow> (Some exc, rs4, h)))"

text \<open>
  \<open>_execute\<close>. The result is \<open>None\<close> when the fuel does not suffice; otherwise the
  exception that leaves the coroutine (if any), the run state and the store.
\<close>

definition execute ::
  "nat \<Rightarrow> registry \<Rightarrow> GraphDefinition \<Rightarrow> RunState \<Rightarrow> store \<Rightarrow>
   (error option \<times> RunState \<times> store) option" where
  "execute fuel T g rs h =
     (let rs1 = rs\<lparr>status := running\<rparr> in
      case notify_subscribers rs1 (run_started (run_id rs1)) of
        Inl e \<Rightarrow> Some (Some e, rs1, h)
      | Inr rs2 \<Rightarrow>
          (case while_loop fuel T (node_lookup (nodes g)) (VStr (start_at g)) rs2 h of
             None \<Rightarrow> None
           | Some (Going cur, rs3, h3) \<Rightarrow> None
           | Some (Exited cur, rs3, h3) \<Rightarrow>
               (let rs4 = rs3\<lparr>current_node := VNone\<rparr>;
                    rs5 = rs4\<lparr>status := completed\<rparr> in
                case notify_subscribers rs5 (run_completed (run_id rs5) (state rs5)) of
                  Inl e \<Rightarrow> Some (on_exception e cur rs5 h3)
                | Inr rs6 \<Rightarrow> Some (None, rs6, h3))
           | Some (Raised e cur, rs3, h3) \<Rightarrow> Some (on_exception e cur rs3 h3)))"

text \<open>The run state that \<open>run_graph\<close> creates, with \<open>dict(initial_state or {})\<close>.\<close>

definition new_run :: "string \<Rightarrow> GraphDefinition \<Rightarrow> bag option \<Rightarrow> RunState" where
  "new_run rid g initial_state =
     \<lparr>run_id = rid, run_graph_id = graph_id g,
      state = (case initial_state of None \<Rightarrow> Map.empty | Some s \<Rightarrow> s),
      current_node = VStr (start_at g), status = pending, log = [],
      loop_counts = Map.empty, subscribers = []\<rparr>"

definition run_graph ::
  "nat \<Rightarrow> registry \<Rightarrow> GraphDefinition \<Rightarrow> string \<Rightarrow> bag option \<Rightarrow> store \<Rightarrow>
   (error option \<times> RunState \<times> store) option" where
  "run_graph fuel T g rid initial_state h = execute fuel T g (new_run rid g initial_state) h"

section \<open>Example graphs and runs\<close>

text \<open>A loop node \<open>L\<close> that goes on while \<open>state["go"] == True\<close>, at most twice.\<close>

definition loop_node :: "pyval \<Rightarrow> NodeDefinition" where
  "loop_node after =
     \<lparr>node_name = ''L'', node_type = loop, node_next = Some ''B'',
      node_config = [''key'' \<mapsto> VStr ''go'', ''value'' \<mapsto> VBool True, ''body'' \<mapsto> VStr ''A'',
                     ''after'' \<mapsto> after, ''max_iterations'' \<mapsto> VInt 2]\<rparr>"

definition loop_rs :: "pyval \<Rightarrow> int \<Rightarrow> RunState" where
  "loop_rs go n =
     \<lparr>run_id = ''r1'', run_graph_id = ''g'', state = [''go'' \<mapsto> go], current_node = VStr ''L'',
      status = running, log = [], loop_counts = [''L'' \<mapsto> n], subscribers = []\<rparr>"

text \<open>A run with two subscribers; the queue of the first one is full.\<close>

definition two_subscribers :: RunState where
  "two_subscribers =
     \<lparr>run_id = ''r1'', run_graph_id = ''g'', state = Map.empty, current_node = VNone,
      status = running, log = [], loop_counts = Map.empty,
      subscribers = [\<lparr>maxsize = 1, items = [run_started ''r1'']\<rparr>, \<lparr>maxsize = 100, items = []\<rparr>]\<rparr>"

text \<open>A graph in which two nodes have the name \<open>A\<close>.\<close>

definition dup_graph :: GraphDefinition where
  "dup_graph =
     \<lparr>graph_id = ''g'', start_at = ''A'',
      nodes = [\<lparr>node_name = ''A'', node_type = tool, node_next = None,
                node_config = [''tool'' \<mapsto> VStr ''t1'']\<rparr>,
               \<lparr>node_name = ''A'', node_type = tool, node_next = None,
                node_config = [''tool'' \<mapsto> VStr ''t2'']\<rparr>]\<rparr>"

text \<open>
  The scenario \<open>A --(tool:double)--> B --(conditional: x>=10 ? end : A)\<close>: the tool
  \<open>double\<close> returns \<open>{"x": state["x"] * 2}\<close>.
\<close>

definition double :: tool_fn where
  "double st h =
     (case st ''x'' of
        None \<Rightarrow> (Inl (KeyError (quoted ''x'')), st, h)
      | Some v \<Rightarrow>
          (case as_num v of
             None \<Rightarrow> (Inl (ToolFailure ''x is not a number''), st, h)
           | Some x \<Rightarrow> (Inr (Some [(''x'', VInt (x * 2))]), st, h)))"

definition double_tools :: registry where
  "double_tools = [''double'' \<mapsto> double]"

definition double_graph :: GraphDefinition where
  "double_graph =
     \<lparr>graph_id = ''doubling'', start_at = ''A'',
      nodes = [\<lparr>node_name = ''A'', node_type = tool, node_next = Some ''B'',
                node_config = [''tool'' \<mapsto> VStr ''double'']\<rparr>,
               \<lparr>node_name = ''B'', node_type = conditional, node_next = None,
                node_config = [''key'' \<mapsto> VStr ''x'', ''op'' \<mapsto> VStr ''>='', ''value'' \<mapsto> VInt 10,
                               ''on_true'' \<mapsto> VNone, ''on_false'' \<mapsto> VStr ''A'']\<rparr>]\<rparr>"

text \<open>What a log entry shows of \<open>x\<close>: its node, its phase and the value of \<open>x\<close> in its snapshot.\<close>

definition entry_x :: "LogEntry \<Rightarrow> string \<times> LogStatus \<times> pyval" where
  "entry_x e =
     (entry_node e, entry_status e,
      (case state_snapshot e of None \<Rightarrow> VNone | Some b \<Rightarrow> dict_get b ''x''))"

text \<open>
  The run state of the scenario when \<open>x\<close> has the value \<open>x\<close>, with \<open>current_node\<close> set to
  \<open>cur\<close> and a log whose entries show the listed nodes, phases and values of \<open>x\<close>.
\<close>

definition double_state :: "int \<Rightarrow> pyval \<Rightarrow> (string \<times> LogStatus \<times> int) list \<Rightarrow> RunState" where
  "double_state x cur lg =
     \<lparr>run_id = ''r1'', run_graph_id = ''doubling'', state = [''x'' \<mapsto> VInt x],
      current_node = cur, status = running,
      log = map (\<lambda>(n, st, v). new_entry n st None [''x'' \<mapsto> VInt v]) lg,
      loop_counts = Map.empty, subscribers = []\<rparr>"

section \<open>Properties of runs\<close>

text \<open>A value that is a string, or that ends the loop: what \<open>current\<close> holds in a valid graph.\<close>

definition str_or_falsy :: "pyval \<Rightarrow> bool" where
  "str_or_falsy v = (case v of VStr s \<Rightarrow> True | _ \<Rightarrow> \<not> truthy v)"

fun ctl_value :: "loop_ctl \<Rightarrow> pyval" where
  "ctl_value (Going cur) = cur"
| "ctl_value (Exited cur) = cur"
| "ctl_value (Raised e cur) = cur"

text \<open>
  The run state after the \<open>start\<close> entry and the \<open>node_start\<close> event of a visit to the
  node named \<open>s\<close>, and after the \<open>end\<close> entry and the \<open>node_end\<close> event of a visit.
\<close>

definition after_start :: "string \<Rightarrow> RunState \<Rightarrow> RunState" where
  "after_start s rs =
     rs\<lparr>current_node := VStr s,
        log := log rs @ [new_entry s log_start None (state rs)],
        subscribers := map (\<lambda>q. if full q then q
                                else q\<lparr>items := items q @ [node_start (VStr s) (state rs)]\<rparr>)
                           (subscribers rs)\<rparr>"

definition after_end :: "string \<Rightarrow> RunState \<Rightarrow> RunState" where
  "after_end s rs =
     rs\<lparr>log := log rs @ [new_entry s log_end None (state rs)],
        subscribers := map (\<lambda>q. if full q then q
                                else q\<lparr>items := items q @ [node_end s (state rs)]\<rparr>)
                           (subscribers rs)\<rparr>"

text \<open>
  The stored iteration counts respect the caps of the loop nodes: every stored count
  belongs to a node of that name whose \<open>max_iterations\<close> is a number not below the count.
\<close>

definition counts_bounded :: "(string \<rightharpoonup> NodeDefinition) \<Rightarrow> RunState \<Rightarrow> bool" where
  "counts_bounded L rs =
     (\<forall>nm c. loop_counts rs nm = Some c \<longrightarrow>
        (\<exists>node m. L nm = Some node \<and>
           as_num (dict_get_default (node_config node) ''max_iterations'' (VInt 25)) = Some m \<and>
           c \<le> m))"

section \<open>Comparison\<close>

lemma py_eq_None: "py_eq VNone t = (t = VNone)" "py_eq v VNone = (v = VNone)"
  by (cases t; simp add: py_eq_def) (cases v; simp add: py_eq_def)

lemma py_eq_VStr: "py_eq op (VStr s) = (op = VStr s)"
  by (cases op; simp add: py_eq_def)

text \<open>
  Claim C2. For all operands \<open>v\<close> and \<open>t\<close>: \<open>==\<close> and \<open>!=\<close> return the equality and
  the inequality of the operands, and equality with \<open>None\<close> is an ordinary truth value;
  each of \<open>>\<close>, \<open>>=\<close>, \<open><\<close>, \<open><=\<close> returns false, and does not raise, when an operand is
  \<open>None\<close>; every other operator raises the ValueError for an unsupported operator. In
  particular \<open>None > 5\<close> is false.
\<close>

theorem compare_semantics:
  "compare v (VStr ''=='') t = Inr (py_eq v t)
   \<and> compare v (VStr ''!='') t = Inr (\<not> py_eq v t)
   \<and> py_eq VNone t = (t = VNone) \<and> py_eq v VNone = (v = VNone)
   \<and> (op \<in> {VStr ''>'', VStr ''>='', VStr ''<'', VStr ''<=''} \<longrightarrow> v = VNone \<or> t = VNone \<longrightarrow>
        compare v op t = Inr False)
   \<and> (op \<notin> {VStr ''=='', VStr ''!='', VStr ''>'', VStr ''>='', VStr ''<'', VStr ''<=''} \<longrightarrow>
        compare v op t = Inl (ValueError (''Unsupported operator '' @ quoted (py_str op))))
   \<and> compare VNone (VStr ''>'') (VInt 5) = Inr False"
  by (auto simp: compare_def py_eq_VStr py_eq_None guarded_def)

theorem compare_semantics_witness:
  "VStr ''<='' \<in> {VStr ''>'', VStr ''>='', VStr ''<'', VStr ''<=''}
   \<and> compare (VInt 3) (VStr ''<='') VNone = Inr False
   \<and> VStr ''=~'' \<notin> {VStr ''=='', VStr ''!='', VStr ''>'', VStr ''>='', VStr ''<'', VStr ''<=''}
   \<and> compare (VInt 3) (VStr ''=~'') (VInt 4) = Inl (ValueError (''Unsupported operator '' @ quoted ''=~''))"
  using compare_semantics [of "VInt 3" VNone "VStr ''<=''"]
        compare_semantics [of "VInt 3" "VInt 4" "VStr ''=~''"]
  by simp

section \<open>Publishing\<close>

lemma notify_queues_eq:
  "notify_queues qs msg =
     Inr (map (\<lambda>q. if full q then q else q\<lparr>items := items q @ [msg]\<rparr>) qs)"
  by (induction qs) (simp_all add: put_nowait_def)

lemma notify_subscribers_eq:
  "notify_subscribers rs msg =
     Inr (rs\<lparr>subscribers :=
            map (\<lambda>q. if full q then q else q\<lparr>items := items q @ [msg]\<rparr>) (subscribers rs)\<rparr>)"
  by (simp add: notify_subscribers_def notify_queues_eq)

text \<open>
  Claim C9. Publishing never raises: for every run state and every message the result is
  a run state, in which every subscriber queue that was full is unchanged (the message is
  dropped for that subscriber only) and every other queue has the message appended.
\<close>

theorem notify_subscribers_best_effort:
  "notify_subscribers rs msg =
     Inr (rs\<lparr>subscribers :=
            map (\<lambda>q. if full q then q else q\<lparr>items := items q @ [msg]\<rparr>) (subscribers rs)\<rparr>)"
  by (simp add: notify_subscribers_def notify_queues_eq)

theorem notify_subscribers_best_effort_witness:
  "full (subscribers two_subscribers ! 0) \<and> \<not> full (subscribers two_subscribers ! 1) \<and>
   notify_subscribers two_subscribers (node_end ''A'' Map.empty) =
     Inr (two_subscribers\<lparr>subscribers :=
            [\<lparr>maxsize = 1, items = [run_started ''r1'']\<rparr>,
             \<lparr>maxsize = 100, items = [node_end ''A'' Map.empty]\<rparr>]\<rparr>)"
  using notify_subscribers_best_effort [of two_subscribers "node_end ''A'' Map.empty"]
  by (simp add: two_subscribers_def full_def)

section \<open>Validation\<close>

text \<open>
  Claim C4, at a graph with a duplicate node name: \<open>validate_graph\<close> accepts the graph
  \<open>dup_graph\<close>, whose two nodes are both named \<open>A\<close>.
\<close>

theorem validate_graph_accepts_duplicate:
  "validate_graph dup_graph = Inr dup_graph \<and> \<not> distinct (map node_name (nodes dup_graph))"
  by (simp add: validate_graph_def dup_graph_def check_node_def)

section \<open>Loop nodes\<close>

lemma py_ge_num: "as_num w = Some m \<Longrightarrow> py_ge (VInt c) w = Inr (c \<ge> m)"
  by (cases w) (simp_all add: py_ge_def py_order_def)

lemma compare_eq_bool: "compare (VBool b) (VStr ''=='') (VBool True) = Inr b"
  by (simp add: compare_def py_eq_def)

text \<open>
  Claim C1, as stated, fails at a loop node whose \<open>after\<close> is the empty string: the
  condition does not hold, \<open>after\<close> is present in the configuration, and the successor is
  \<open>next\<close>, not \<open>after\<close>.
\<close>

theorem evaluate_loop_after_empty_counterexample:
  "node_config (loop_node (VStr [])) ''after'' = Some (VStr [])
   \<and> compare (state_get (state (loop_rs (VBool False) 0)) (VStr ''go'')) (VStr ''=='') (VBool True)
       = Inr False
   \<and> evaluate_loop (loop_node (VStr [])) (loop_rs (VBool False) 0)
       = Inr (VStr ''B'', loop_rs (VBool False) 0)
   \<and> evaluate_loop (loop_node (VStr [])) (loop_rs (VBool False) 0)
       \<noteq> Inr (dict_get (node_config (loop_node (VStr []))) ''after'', loop_rs (VBool False) 0)"
  by (simp add: evaluate_loop_def loop_node_def loop_rs_def dict_get_def dict_get_default_def
        state_get_def compare_eq_bool opt_val_def py_or_def)

text \<open>
  Claim C1, amended. A loop node fails with the ValueError for a missing \<open>key\<close> or \<open>body\<close>
  when one of them is absent or \<open>None\<close>. Otherwise, with \<open>op\<close> defaulting to \<open>==\<close>,
  \<open>max_iterations\<close> defaulting to 25 and \<open>count\<close> the stored count of the node (0 when
  there is none), and when the comparison returns \<open>continue\<close> and \<open>max_iterations\<close> is a
  number \<open>m\<close>: if \<open>continue\<close> and \<open>count \<ge> m\<close> the successor is \<open>after\<close> and the count
  is not changed; else if \<open>continue\<close> the stored count becomes \<open>count + 1\<close> and the
  successor is \<open>body\<close>; otherwise the successor is \<open>after\<close> if \<open>after\<close> is truthy (not
  \<open>None\<close> and not empty), else \<open>next\<close>. The engine dispatches a node of type \<open>loop\<close> to
  this function.
\<close>

theorem evaluate_loop_semantics:
  "(let cfg = node_config node;
        key = dict_get cfg ''key'';
        op = dict_get_default cfg ''op'' (VStr ''=='');
        target = dict_get cfg ''value'';
        body = dict_get cfg ''body'';
        after = dict_get cfg ''after'';
        max_iterations = dict_get_default cfg ''max_iterations'' (VInt 25);
        count = (case loop_counts rs (node_name node) of None \<Rightarrow> 0 | Some c \<Rightarrow> c)
    in (key = VNone \<or> body = VNone \<longrightarrow>
          evaluate_loop node rs =
            Inl (ValueError (''Loop node '' @ quoted (node_name node) @ '' requires '' @
                   quoted ''key'' @ '' and '' @ quoted ''body'')))
     \<and> (key \<noteq> VNone \<and> body \<noteq> VNone
           \<and> compare (state_get (state rs) key) op target = Inr continue
           \<and> as_num max_iterations = Some m \<longrightarrow>
          evaluate_loop node rs =
            (if continue \<and> count \<ge> m then Inr (after, rs)
             else if continue
             then Inr (body, rs\<lparr>loop_counts := (loop_counts rs)(node_name node \<mapsto> count + 1)\<rparr>)
             else Inr (if truthy after then after else opt_val (node_next node), rs)))
     \<and> (node_type node = loop \<longrightarrow>
          execute_node T node rs h =
            (case evaluate_loop node rs of
               Inl e \<Rightarrow> (Inl e, rs, h)
             | Inr (nxt, rs') \<Rightarrow> (Inr nxt, rs', h))))"
  by (auto simp: Let_def evaluate_loop_def py_ge_num py_or_def execute_node_def)

theorem evaluate_loop_semantics_witness:
  "evaluate_loop (loop_node (VStr ''C'')) (loop_rs (VBool True) 1)
     = Inr (VStr ''A'', (loop_rs (VBool True) 1)\<lparr>loop_counts := [''L'' \<mapsto> 2]\<rparr>)
   \<and> evaluate_loop (loop_node (VStr ''C'')) (loop_rs (VBool True) 2)
     = Inr (VStr ''C'', loop_rs (VBool True) 2)
   \<and> execute_node Map.empty (loop_node VNone) (loop_rs (VBool False) 2) Map.empty
     = (Inr (VStr ''B''), loop_rs (VBool False) 2, Map.empty)
   \<and> evaluate_loop ((loop_node VNone)\<lparr>node_config := Map.empty\<rparr>) (loop_rs (VBool False) 2)
     = Inl (ValueError (''Loop node '' @ quoted ''L'' @ '' requires '' @
                   quoted ''key'' @ '' and '' @ quoted ''body''))"
  using evaluate_loop_semantics [where node = "loop_node (VStr ''C'')" and rs = "loop_rs (VBool True) 1"
          and continue = True and m = 2]
        evaluate_loop_semantics [where node = "loop_node (VStr ''C'')" and rs = "loop_rs (VBool True) 2"
          and continue = True and m = 2]
        evaluate_loop_semantics [where node = "loop_node VNone" and rs = "loop_rs (VBool False) 2"
          and continue = False and m = 2 and T = Map.empty and h = Map.empty]
        evaluate_loop_semantics [where node = "(loop_node VNone)\<lparr>node_config := Map.empty\<rparr>"
          and rs = "loop_rs (VBool False) 2"]
  by (simp add: Let_def loop_node_def loop_rs_def dict_get_def dict_get_default_def state_get_def
        compare_eq_bool opt_val_def)

section \<open>The interpreter loop\<close>

lemma loop_steps_0: "loop_steps 0 T L c = c"
  by (simp add: loop_steps_def)

lemma loop_steps_Suc: "loop_steps (Suc n) T L c = loop_steps n T L (loop_step T L c)"
  by (simp add: loop_steps_def funpow_swap1)

lemma loop_steps_Suc_outer: "loop_steps (Suc n) T L c = loop_step T L (loop_steps n T L c)"
  by (simp add: loop_steps_def)

lemma loop_step_exit: "\<not> truthy cur \<Longrightarrow> loop_step T L (Going cur, rs, h) = (Exited cur, rs, h)"
  by (simp add: loop_step_def)

lemma loop_step_done:
  "loop_step T L (Exited cur, rs, h) = (Exited cur, rs, h)"
  "loop_step T L (Raised e cur, rs, h) = (Raised e cur, rs, h)"
  by (simp_all add: loop_step_def)

lemma loop_body_str:
  "loop_body T L (VStr s) rs h =
     (let rs3 = rs\<lparr>current_node := VStr s,
                   log := log rs @ [new_entry s log_start None (state rs)],
                   subscribers := map (\<lambda>q. if full q then q
                                     else q\<lparr>items := items q @ [node_start (VStr s) (state rs)]\<rparr>)
                                   (subscribers rs)\<rparr>
      in case L s of
           None \<Rightarrow> (Raised (KeyError (quoted s)) (VStr s), rs3, h)
         | Some node \<Rightarrow>
             (case execute_node T node rs3 h of
                (Inl e, rs4, h4) \<Rightarrow> (Raised e (VStr s), rs4, h4)
              | (Inr nxt, rs4, h4) \<Rightarrow>
                  (Going nxt,
                   rs4\<lparr>log := log rs4 @ [new_entry (node_name node) log_end None (state rs4)],
                       subscribers := map (\<lambda>q. if full q then q
                                     else q\<lparr>items := items q @ [node_end (node_name node) (state rs4)]\<rparr>)
                                   (subscribers rs4)\<rparr>, h4)))"
proof (cases "L s")
  case None
  then show ?thesis
    by (simp add: loop_body_def LogEntry_of_def notify_subscribers_eq lookup_node_def Let_def)
next
  case (Some node)
  define rs3 where "rs3 = rs\<lparr>current_node := VStr s,
                   log := log rs @ [new_entry s log_start None (state rs)],
                   subscribers := map (\<lambda>q. if full q then q
                                     else q\<lparr>items := items q @ [node_start (VStr s) (state rs)]\<rparr>)
                                   (subscribers rs)\<rparr>"
  obtain r rs4 h4 where ex: "execute_node T node rs3 h = (r, rs4, h4)"
    by (cases "execute_node T node rs3 h") auto
  show ?thesis
  proof (cases r)
    case (Inl e)
    show ?thesis
      unfolding loop_body_def Let_def
      using Some ex [unfolded rs3_def Inl]
      by (simp add: LogEntry_of_def notify_subscribers_eq lookup_node_def)
  next
    case (Inr nxt)
    show ?thesis
      unfolding loop_body_def Let_def
      using Some ex [unfolded rs3_def Inr]
      by (simp add: LogEntry_of_def notify_subscribers_eq lookup_node_def)
  qed
qed

lemma compare_ge_int: "compare (VInt a) (VStr ''>='') (VInt b) = Inr (a \<ge> b)"
  by (simp add: compare_def py_eq_VStr guarded_def py_ge_def py_order_def)

lemma double_lookup:
  "node_lookup (nodes double_graph) ''A'' = Some (nodes double_graph ! 0)"
  "node_lookup (nodes double_graph) ''B'' = Some (nodes double_graph ! 1)"
  by (simp_all add: node_lookup_def double_graph_def)

lemma double_step_A:
  "loop_step double_tools (node_lookup (nodes double_graph)) (Going (VStr ''A''), double_state x c lg, h)
   = (Going (VStr ''B''),
      double_state (x * 2) (VStr ''A'') (lg @ [(''A'', log_start, x), (''A'', log_end, x * 2)]), h)"
  by (simp add: loop_step_def loop_body_str double_lookup)
     (simp add: double_graph_def double_state_def execute_node_def invoke_tool_def invoke_def
        registry_get_def double_tools_def double_def dict_get_def opt_val_def)

lemma double_step_B:
  "loop_step double_tools (node_lookup (nodes double_graph)) (Going (VStr ''B''), double_state x c lg, h)
   = (Going (if x \<ge> 10 then VNone else VStr ''A''),
      double_state x (VStr ''B'') (lg @ [(''B'', log_start, x), (''B'', log_end, x)]), h)"
  by (simp add: loop_step_def loop_body_str double_lookup)
     (simp add: double_graph_def double_state_def execute_node_def evaluate_conditional_def
        dict_get_def dict_get_default_def state_get_def compare_ge_int py_or_def opt_val_def)

lemma double_loop:
  "loop_steps 5 double_tools (node_lookup (nodes double_graph))
     (Going (VStr ''A''), double_state 3 (VStr ''A'') [], h)
   = (Exited VNone,
      double_state 12 (VStr ''B'')
        [(''A'', log_start, 3), (''A'', log_end, 6), (''B'', log_start, 6), (''B'', log_end, 6),
         (''A'', log_start, 6), (''A'', log_end, 12), (''B'', log_start, 12), (''B'', log_end, 12)], h)"
  by (simp add: numeral_eq_Suc loop_steps_Suc loop_steps_0 double_step_A double_step_B loop_step_exit)

text \<open>
  Claim C8. The graph \<open>A --(tool:double)--> B --(conditional: x>=10 ? end : A)\<close> is
  valid; run from \<open>{x: 3}\<close> it terminates (five tests of the loop condition suffice)
  without an exception, with status \<open>completed\<close> and \<open>x = 12\<close>; the snapshots of the log
  show \<open>x\<close> going from 3 to 6 to 12, and node \<open>A\<close> is started exactly twice.
\<close>

theorem double_run:
  "validate_graph double_graph = Inr double_graph \<and>
   (case run_graph 5 double_tools double_graph ''r1'' (Some [''x'' \<mapsto> VInt 3]) Map.empty of
      Some (None, rs, h) \<Rightarrow>
        status rs = completed \<and> state rs ''x'' = Some (VInt 12) \<and> current_node rs = VNone \<and>
        map entry_x (log rs) =
          [(''A'', log_start, VInt 3), (''A'', log_end, VInt 6),
           (''B'', log_start, VInt 6), (''B'', log_end, VInt 6),
           (''A'', log_start, VInt 6), (''A'', log_end, VInt 12),
           (''B'', log_start, VInt 12), (''B'', log_end, VInt 12)]
        \<and> length (filter (\<lambda>e. entry_node e = ''A'' \<and> entry_status e = log_start) (log rs)) = 2
    | _ \<Rightarrow> False)"
proof -
  have init: "(new_run ''r1'' double_graph (Some [''x'' \<mapsto> VInt 3]))\<lparr>status := running\<rparr>
              = double_state 3 (VStr ''A'') []"
    by (simp add: new_run_def double_state_def double_graph_def)
  have start: "start_at double_graph = ''A''"
    by (simp add: double_graph_def)
  let ?lg = "[(''A'', log_start, 3), (''A'', log_end, 6), (''B'', log_start, 6), (''B'', log_end, 6),
         (''A'', log_start, 6), (''A'', log_end, 12), (''B'', log_start, 12), (''B'', log_end, 12)]"
  have note0: "notify_subscribers (double_state 3 (VStr ''A'') []) msg = Inr (double_state 3 (VStr ''A'') [])" for msg
    by (simp add: notify_subscribers_eq double_state_def)
  have w: "while_loop 5 double_tools (node_lookup (nodes double_graph)) (VStr ''A'')
             (double_state 3 (VStr ''A'') []) Map.empty
           = Some (Exited VNone, double_state 12 (VStr ''B'') ?lg, Map.empty)"
    by (simp add: while_loop_def double_loop)
  have e: "run_graph 5 double_tools double_graph ''r1'' (Some [''x'' \<mapsto> VInt 3]) Map.empty
           = Some (None, (double_state 12 (VStr ''B'') ?lg)\<lparr>current_node := VNone, status := completed\<rparr>,
                   Map.empty)"
    unfolding run_graph_def execute_def Let_def init note0 start
    by (simp add: w) (simp add: notify_subscribers_eq double_state_def)
  have v: "validate_graph double_graph = Inr double_graph"
    by (simp add: validate_graph_def double_graph_def check_node_def dict_get_def not_in_names_def)
  show ?thesis
    unfolding e by (simp add: v) (simp add: double_state_def entry_x_def new_entry_def dict_get_def)
qed

end
